theory Spec2Isabelle
  imports Main "HOL-Library.Char_ord" "HOL-Library.List_Lexorder" "HOL-Library.Countable"
begin

section \<open>The node model\<close>

text \<open>
  The classes \<open>File\<close> and \<open>Folder\<close> of \<open>main.py\<close>. A \<open>File\<close> has the fields
  \<open>parent\<close>, \<open>path\<close> and \<open>size\<close>; a \<open>Folder\<close> has a \<open>children\<close> list as well.
  The \<open>parent\<close> field holds either Python's \<open>None\<close> or a reference to some object;
  references are values of an arbitrary type \<open>'p\<close>. Sizes are Python integers.
  The field \<open>size\<close> is written \<open>size'\<close>, since \<open>size\<close> is a constant of HOL.
\<close>

datatype 'p node =
    File (parent: "'p option") (path: string) (size': int)
  | Folder (parent: "'p option") (path: string) (size': int) (children: "'p node list")

section \<open>The file system as the builder sees it\<close>

text \<open>
  \<open>get_file_tree\<close> reads the file system through \<open>os.scandir\<close> and through four
  operations on each \<open>DirEntry\<close>: \<open>name\<close>, \<open>is_file(follow_symlinks=False)\<close>,
  \<open>stat().st_size\<close> and \<open>is_dir(follow_symlinks=False)\<close>; a directory entry is then
  scanned by \<open>os.scandir(entry.path)\<close>. Each operation either returns its value or
  raises an \<open>OSError\<close>. A \<open>dirent\<close> records the outcome of each of them for one entry,
  the last field being the outcome of scanning the entry's own path: the error raised, or
  the entries listed, in enumeration order. Symbolic links are not followed, so the
  directories reached form a finite tree.
\<close>

datatype os_error = PermissionError | FileNotFoundError | NotADirectoryError | OtherOSError

datatype dirent = DirEntry (entry_name: string) (entry_is_file: "os_error + bool")
  (entry_stat: "os_error + int") (entry_is_dir: "os_error + bool")
  (entry_scandir: "os_error + dirent list")

section \<open>The tree builder\<close>

text \<open>
  \<open>get_file_tree name root parent\<close>, where the second argument is the outcome of
  \<open>os.scandir(root)\<close>. The call of \<open>os.scandir\<close> stands outside the \<open>try\<close> block, so an
  error it raises leaves the function, whatever its class. \<open>scan_loop\<close> is the \<open>for\<close>
  loop over the entries with its two accumulators \<open>total\<close> and \<open>files\<close>; the handler
  \<open>except PermissionError: continue\<close> encloses the whole body of the loop, the recursive
  call included, and every other error leaves the loop and the function.
\<close>

function get_file_tree :: "string \<Rightarrow> os_error + dirent list \<Rightarrow> 'p option \<Rightarrow> os_error + 'p node"
  and scan_loop :: "dirent list \<Rightarrow> 'p option \<Rightarrow> int \<Rightarrow> 'p node list \<Rightarrow> os_error + int \<times> 'p node list"
where
  "get_file_tree name (Inl e) parent' = Inl e"
| "get_file_tree name (Inr it) parent' =
     (case scan_loop it parent' 0 [] of
        Inl e \<Rightarrow> Inl e
      | Inr (total', files) \<Rightarrow> Inr (Folder parent' name total' files))"
| "scan_loop [] parent' total' files = Inr (total', files)"
| "scan_loop (DirEntry ename isf st isd sub # it) parent' total' files =
     (case isf of
        Inl e \<Rightarrow> (if e = PermissionError then scan_loop it parent' total' files else Inl e)
      | Inr True \<Rightarrow>
          (case st of
             Inl e \<Rightarrow> (if e = PermissionError then scan_loop it parent' total' files else Inl e)
           | Inr sz \<Rightarrow> scan_loop it parent' (total' + sz) (files @ [File parent' ename sz]))
      | Inr False \<Rightarrow>
          (case isd of
             Inl e \<Rightarrow> (if e = PermissionError then scan_loop it parent' total' files else Inl e)
           | Inr True \<Rightarrow>
               (case get_file_tree ename sub parent' of
                  Inl e \<Rightarrow>
                    (if e = PermissionError then scan_loop it parent' total' files else Inl e)
                | Inr folder \<Rightarrow>
                    scan_loop it parent' (total' + size' folder) (files @ [folder]))
           | Inr False \<Rightarrow> scan_loop it parent' total' files))"
  by pat_completeness auto
termination
  by (relation "measure (\<lambda>x. case x of
      Inl (name, root, parent') \<Rightarrow> (case root of Inl e \<Rightarrow> 0 | Inr it \<Rightarrow> Suc (size_list size it))
    | Inr (it, parent', total', files) \<Rightarrow> size_list size it)")
    (auto split: sum.splits)

text \<open>
  \<open>AppFrame.__init__\<close> builds the tree of the root path with \<open>None\<close> as parent and
  hands the one-element list \<open>[tree]\<close> to the view model; it has no handler of its own.
\<close>

definition AppFrame_init :: "string \<Rightarrow> os_error + dirent list \<Rightarrow> os_error + 'p node list" where
  "AppFrame_init root_path root =
     (case get_file_tree root_path root None of
        Inl e \<Rightarrow> Inl e
      | Inr tree \<Rightarrow> Inr [tree])"

section \<open>Properties of trees\<close>

text \<open>The aggregation invariant: at every folder of the tree, the size is the sum of the
  sizes of the children.\<close>

fun aggregated :: "'p node \<Rightarrow> bool" where
  "aggregated (File p n s) = True"
| "aggregated (Folder p n s cs) = (s = sum_list (map size' cs) \<and> list_all aggregated cs)"

text \<open>All nodes of a tree, the root first.\<close>

fun nodes :: "'p node \<Rightarrow> 'p node list" where
  "nodes (File p n s) = [File p n s]"
| "nodes (Folder p n s cs) = Folder p n s cs # concat (map nodes cs)"

text \<open>
  What one entry of a listing adds to the children of its folder when the loop goes on
  past it: the \<open>File\<close> of a regular file whose size could be read, the \<open>Folder\<close> built
  for a directory, and nothing for an entry of another kind or one that raised.
\<close>

fun contribution :: "'p option \<Rightarrow> dirent \<Rightarrow> 'p node list" where
  "contribution p (DirEntry ename isf st isd sub) =
     (case isf of
        Inl e \<Rightarrow> []
      | Inr True \<Rightarrow> (case st of Inl e \<Rightarrow> [] | Inr sz \<Rightarrow> [File p ename sz])
      | Inr False \<Rightarrow>
          (case isd of
             Inl e \<Rightarrow> []
           | Inr True \<Rightarrow> (case get_file_tree ename sub p of Inl e \<Rightarrow> [] | Inr folder \<Rightarrow> [folder])
           | Inr False \<Rightarrow> []))"

text \<open>
  The error, if any, with which the processing of one entry leaves the loop: the first
  error other than \<open>PermissionError\<close> raised by \<open>is_file\<close>, \<open>stat\<close>, \<open>is_dir\<close> or the
  recursive call.
\<close>

fun entry_error :: "'p option \<Rightarrow> dirent \<Rightarrow> os_error option" where
  "entry_error p (DirEntry ename isf st isd sub) =
     (case isf of
        Inl e \<Rightarrow> (if e = PermissionError then None else Some e)
      | Inr True \<Rightarrow>
          (case st of
             Inl e \<Rightarrow> (if e = PermissionError then None else Some e)
           | Inr sz \<Rightarrow> None)
      | Inr False \<Rightarrow>
          (case isd of
             Inl e \<Rightarrow> (if e = PermissionError then None else Some e)
           | Inr True \<Rightarrow>
               (case get_file_tree ename sub p of
                  Inl e \<Rightarrow> (if e = PermissionError then None else Some e)
                | Inr folder \<Rightarrow> None)
           | Inr False \<Rightarrow> None))"

section \<open>The view model\<close>

text \<open>
  Errors of Python that are not errors of the operating system: \<open>AttributeError\<close> for
  reading an attribute an object does not have, \<open>OverflowError\<close> for a division whose
  result is too large for a float.
\<close>

datatype py_error = AttributeError | OverflowError

text \<open>
  \<open>FolderTreeViewModel\<close>. An item of the view stands for the node it was made from
  (\<open>ItemToObject\<close> and \<open>ObjectToItem\<close> are inverse to each other), and the null item, which
  Python tests with \<open>not item\<close>, is \<open>None\<close>. \<open>Compare\<close> returns \<open>1\<close> or \<open>-1\<close>; names are
  compared as Python compares strings, lexicographically by code point, which on the
  bytes of UTF-8 is the lexicographic order of \<open>string\<close>.
\<close>

definition Compare :: "'p node \<Rightarrow> 'p node \<Rightarrow> int \<Rightarrow> bool \<Rightarrow> int" where
  "Compare file1 file2 column ascending =
     (if column = 0 \<or> size' file1 = size' file2
      then (if ascending = (path file1 > path file2) then 1 else - 1)
      else (if ascending = (size' file1 > size' file2) then 1 else - 1))"


text \<open>
  \<open>GetChildren\<close> appends the items of the children to the list it is given and returns
  their number. For an item that is not null it reads the attribute \<open>children\<close> of the
  node, which only a \<open>Folder\<close> has: on a \<open>File\<close> the read raises \<open>AttributeError\<close>.
\<close>

definition GetChildren ::
  "'p node list \<Rightarrow> 'p node option \<Rightarrow> 'p node list \<Rightarrow> py_error + 'p node list \<times> int" where
  "GetChildren data parent' children' =
     (case parent' of
        None \<Rightarrow> Inr (children' @ data, int (length data))
      | Some (Folder p n s cs) \<Rightarrow> Inr (children' @ cs, int (length cs))
      | Some (File p n s) \<Rightarrow> Inl AttributeError)"


text \<open>\<open>IsContainer\<close>: the null item and every \<open>Folder\<close> are containers, a \<open>File\<close> is not.\<close>

definition IsContainer :: "'p node option \<Rightarrow> bool" where
  "IsContainer item =
     (case item of
        None \<Rightarrow> True
      | Some (Folder p n s cs) \<Rightarrow> True
      | Some (File p n s) \<Rightarrow> False)"

section \<open>The size formatter\<close>

text \<open>
  \<open>FileSizeRenderer.pretty_print_size\<close> reads \<open>self.value\<close>, which \<open>SetValue\<close> sets to
  \<open>None\<close> or to an integer. Below 1000 the integer is printed with \<open>str\<close>. Otherwise
  \<open>tmp /= 1000\<close> is Python's true division, whose result is a float, and \<open>{tmp:.2f}\<close>
  prints a float with two decimals.

  A float is an IEEE 754 binary64 number; a finite one is modelled by the rational
  number it denotes. Every division of \<open>pretty_print_size\<close> has a dividend of at least
  1000 and the divisor 1000, so every quotient is at least 1, and the result of the
  division is the quotient rounded to 53 significant bits, ties to even, as both the
  division of two integers and the division of a float by an integer are in Python.
\<close>

text \<open>The decimal digits of a natural number, as \<open>str\<close> prints them, and \<open>str\<close> of an
  integer.\<close>

function str_digits :: "int \<Rightarrow> string" where
  "str_digits n =
     (if n < 10 then [''0123456789'' ! nat n]
      else str_digits (n div 10) @ [''0123456789'' ! nat (n mod 10)])"
  by pat_completeness auto
termination
  by (relation "measure nat") auto

declare str_digits.simps [simp del]

definition str_int :: "int \<Rightarrow> string" where
  "str_int i = (if i < 0 then ''-'' @ str_digits (- i) else str_digits i)"

text \<open>Rounding a rational number to the nearest integer, ties to the even one.\<close>

definition round_half_even :: "rat \<Rightarrow> int" where
  "round_half_even q =
     (let f = \<lfloor>q\<rfloor>; r = q - of_int f
      in if r < 1 / 2 then f else if 1 / 2 < r then f + 1 else if even f then f else f + 1)"

text \<open>The number of binary digits of a positive integer (Python's \<open>int.bit_length\<close>).\<close>

function bit_length :: "int \<Rightarrow> int" where
  "bit_length n = (if n \<le> 0 then 0 else 1 + bit_length (n div 2))"
  by pat_completeness auto
termination
  by (relation "measure nat") auto

declare bit_length.simps [simp del]

definition pow2 :: "int \<Rightarrow> rat" where
  "pow2 e = (if 0 \<le> e then 2 ^ nat e else 1 / 2 ^ nat (- e))"

text \<open>
  The float nearest to a rational \<open>q\<close> with \<open>1 \<le> q\<close>: with \<open>L\<close> the bit length of the
  integer part, \<open>2 ^ (L - 1) \<le> q < 2 ^ L\<close>, so \<open>q / 2 ^ (L - 53)\<close> lies between \<open>2 ^ 52\<close>
  and \<open>2 ^ 53\<close> and is rounded to an integer of 53 bits.
\<close>

definition to_double :: "rat \<Rightarrow> rat" where
  "to_double q =
     (let e = bit_length \<lfloor>q\<rfloor> - 53
      in of_int (round_half_even (q / pow2 e)) * pow2 e)"

text \<open>
  \<open>int / int\<close>: the rounded quotient, or \<open>OverflowError\<close> when it exceeds the range of a
  float. \<open>float / int\<close> cannot overflow here, the dividend being a float already.
\<close>

definition int_truediv :: "int \<Rightarrow> int \<Rightarrow> py_error + rat" where
  "int_truediv a b =
     (let q = to_double (of_int a / of_int b)
      in if 2 ^ 1024 \<le> q then Inl OverflowError else Inr q)"

definition float_truediv :: "rat \<Rightarrow> int \<Rightarrow> rat" where
  "float_truediv x b = to_double (x / of_int b)"

text \<open>
  \<open>{x:.2f}\<close> for a float \<open>x\<close> that is not negative: the decimal with two places nearest
  to the value of \<open>x\<close>, ties to even; \<open>n\<close> is that decimal in hundredths.
\<close>

definition format_2f :: "rat \<Rightarrow> string" where
  "format_2f x =
     (let n = round_half_even (x * 100)
      in str_digits (n div 100) @ ''.''
         @ [''0123456789'' ! nat (n mod 100 div 10), ''0123456789'' ! nat (n mod 10)])"

text \<open>
  The function itself. The result \<open>None\<close> is Python's \<open>None\<close>, which the function returns
  by reaching its end when the third quotient is not below 1000.
\<close>

definition pretty_print_size :: "int option \<Rightarrow> py_error + string option" where
  "pretty_print_size value =
     (case value of
        None \<Rightarrow> Inr (Some '''')
      | Some v \<Rightarrow>
          (let tmp = v in
           if tmp < 1000 then Inr (Some (str_int tmp @ '' bytes''))
           else
             (case int_truediv tmp 1000 of
                Inl e \<Rightarrow> Inl e
              | Inr tmp \<Rightarrow>
                  if tmp < 1000 then Inr (Some (format_2f tmp @ '' kB''))
                  else
                    (let tmp = float_truediv tmp 1000 in
                     if tmp < 1000 then Inr (Some (format_2f tmp @ '' MB''))
                     else
                       (let tmp = float_truediv tmp 1000 in
                        if tmp < 1000 then Inr (Some (format_2f tmp @ '' GB''))
                        else Inr None)))))"

section \<open>The loop, entry by entry\<close>

lemma scan_loop_append:
  "scan_loop (xs @ ys) p t fs =
     (case scan_loop xs p t fs of
        Inl e \<Rightarrow> Inl e
      | Inr (t', fs') \<Rightarrow> scan_loop ys p t' fs')"
proof (induction xs arbitrary: t fs)
  case Nil
  show ?case by simp
next
  case (Cons x xs)
  show ?case
    by (cases x) (simp add: Cons.IH split: sum.splits bool.splits)
qed

lemma scan_loop_never_permission: "scan_loop it p t fs \<noteq> Inl PermissionError"
proof (induction it arbitrary: t fs)
  case Nil
  show ?case by simp
next
  case (Cons x it)
  show ?case
    by (cases x) (simp add: Cons.IH split: sum.splits bool.splits)
qed

lemma get_file_tree_never_permission: "get_file_tree name (Inr it) p \<noteq> Inl PermissionError"
  using scan_loop_never_permission [of it p 0 "[]"]
  by (auto split: sum.splits prod.splits)

lemma builder_invariant:
  fixes p :: "'p option" and P :: "'p option \<Rightarrow> 'p node \<Rightarrow> bool"
  assumes leaf: "\<And>q ename sz. P q (File q ename sz)"
    and folder: "\<And>q name t fs. list_all (P q) fs \<Longrightarrow> t = sum_list (map size' fs) \<Longrightarrow>
                   P q (Folder q name t fs)"
  shows "get_file_tree name root p = Inr tr \<Longrightarrow> P p tr"
    and "scan_loop it p t fs = Inr (t', fs') \<Longrightarrow>
      t = sum_list (map size' fs) \<Longrightarrow> list_all (P p) fs \<Longrightarrow>
      t' = sum_list (map size' fs') \<and> list_all (P p) fs'"
proof (induction name root p and it p t fs arbitrary: tr and t' fs' rule: get_file_tree_scan_loop.induct)
  case (1 name e parent')
  then show ?case by simp
next
  case (2 name it parent')
  from "2.prems" obtain tot files where run: "scan_loop it parent' 0 [] = Inr (tot, files)"
    and tr: "tr = Folder parent' name tot files"
    by (auto split: sum.splits prod.splits)
  from "2.IH" [OF run] have "tot = sum_list (map size' files) \<and> list_all (P parent') files"
    by simp
  with tr show ?case by (simp add: folder)
next
  case (3 parent' total' files)
  then show ?case by auto
next
  case (4 ename isf st isd sub it parent' total' files)
  note run = "4.prems"(1) and tot = "4.prems"(2) and agg = "4.prems"(3)
  show ?case
  proof (cases isf)
    case (Inl e)
    with run have pe: "e = PermissionError" and r: "scan_loop it parent' total' files = Inr (t', fs')"
      by (simp_all split: if_splits)
    from "4.IH"(1) [OF Inl pe r tot agg] show ?thesis .
  next
    case isfR: (Inr b)
    show ?thesis
    proof (cases b)
      case True
      then have bT: "b = True" by simp
      show ?thesis
      proof (cases st)
        case (Inl e)
        with run isfR bT have pe: "e = PermissionError"
          and r: "scan_loop it parent' total' files = Inr (t', fs')"
          by (simp_all split: if_splits)
        from "4.IH"(2) [OF isfR bT Inl pe r tot agg] show ?thesis .
      next
        case (Inr sz)
        with run isfR bT
        have r: "scan_loop it parent' (total' + sz) (files @ [File parent' ename sz]) = Inr (t', fs')"
          by simp
        show ?thesis
          by (rule "4.IH"(3) [OF isfR bT Inr r]) (simp_all add: tot agg leaf)
      qed
    next
      case False
      then have bF: "b = False" by simp
      show ?thesis
      proof (cases isd)
        case (Inl e)
        with run isfR bF have pe: "e = PermissionError"
          and r: "scan_loop it parent' total' files = Inr (t', fs')"
          by (simp_all split: if_splits)
        from "4.IH"(4) [OF isfR bF Inl pe r tot agg] show ?thesis .
      next
        case isdR: (Inr d)
        show ?thesis
        proof (cases d)
          case False
          then have dF: "d = False" by simp
          with run isfR bF isdR have r: "scan_loop it parent' total' files = Inr (t', fs')"
            by simp
          from "4.IH"(8) [OF isfR bF isdR dF r tot agg] show ?thesis .
        next
          case True
          then have dT: "d = True" by simp
          show ?thesis
          proof (cases "get_file_tree ename sub parent'")
            case (Inl e)
            with run isfR bF isdR dT have pe: "e = PermissionError"
              and r: "scan_loop it parent' total' files = Inr (t', fs')"
              by (simp_all split: if_splits)
            from "4.IH"(6) [OF isfR bF isdR dT Inl pe r tot agg] show ?thesis .
          next
            case (Inr folder)
            have af: "P parent' folder"
              by (rule "4.IH"(5) [OF isfR bF isdR dT Inr])
            from run isfR bF isdR dT Inr
            have r: "scan_loop it parent' (total' + size' folder) (files @ [folder]) = Inr (t', fs')"
              by simp
            show ?thesis
              by (rule "4.IH"(7) [OF isfR bF isdR dT Inr r]) (simp_all add: tot agg af)
          qed
        qed
      qed
    qed
  qed
qed


lemma list_all_concat: "list_all P (concat xss) = list_all (list_all P) xss"
  by (induction xss) simp_all

lemma scan_loop_skip_middle:
  assumes "\<And>t fs. scan_loop (x # post) p t fs = scan_loop post p t fs"
  shows "scan_loop (pre @ x # post) p t fs = scan_loop (pre @ post) p t fs"
  by (simp add: scan_loop_append [of pre] assms split: sum.splits)

lemma get_file_tree_skip_middle:
  assumes "\<And>t fs. scan_loop (x # post) p t fs = scan_loop post p t fs"
  shows "get_file_tree name (Inr (pre @ x # post)) p = get_file_tree name (Inr (pre @ post)) p"
  by (simp add: scan_loop_skip_middle [OF assms])

lemma scan_loop_contributions:
  "scan_loop it p t fs = Inr (t', fs') \<Longrightarrow>
     fs' = fs @ concat (map (contribution p) it)
     \<and> t' = t + sum_list (map size' (concat (map (contribution p) it)))"
proof (induction it arbitrary: t fs)
  case Nil
  then show ?case by simp
next
  case (Cons x it)
  obtain ename isf st isd sub where x: "x = DirEntry ename isf st isd sub"
    by (cases x)
  from Cons.prems obtain t1 fs1 where
    step: "scan_loop it p t1 fs1 = Inr (t', fs')"
    and fs1: "fs1 = fs @ contribution p x"
    and t1: "t1 = t + sum_list (map size' (contribution p x))"
    unfolding x by (auto split: sum.splits bool.splits if_splits)
  from Cons.IH [OF step] fs1 t1 show ?case
    by simp
qed

lemma scan_loop_total:
  "list_all (\<lambda>y. entry_error p y = None) it \<Longrightarrow> \<exists>r. scan_loop it p t fs = Inr r"
proof (induction it arbitrary: t fs)
  case Nil
  show ?case by simp
next
  case (Cons x it)
  obtain ename isf st isd sub where x: "x = DirEntry ename isf st isd sub"
    by (cases x)
  from Cons.prems have rest: "list_all (\<lambda>y. entry_error p y = None) it"
    and here: "entry_error p (DirEntry ename isf st isd sub) = None"
    by (simp_all add: x)
  from here Cons.IH [OF rest] show ?case
    unfolding x by (auto split: sum.splits bool.splits if_splits)
qed

lemma contribution_file:
  "entry_is_file y = Inr True \<Longrightarrow> entry_stat y = Inr sz \<Longrightarrow>
     contribution p y = [File p (entry_name y) sz]"
  by (cases y) simp

lemma contribution_folder:
  "entry_is_file y = Inr False \<Longrightarrow> entry_is_dir y = Inr True \<Longrightarrow>
     get_file_tree (entry_name y) (entry_scandir y) p = Inr f \<Longrightarrow>
     contribution p y = [f]"
  by (cases y) simp

lemma get_file_tree_contributions:
  assumes "get_file_tree name (Inr it) p = Inr tr"
  shows "tr = Folder p name (sum_list (map size' (concat (map (contribution p) it))))
           (concat (map (contribution p) it))"
proof -
  from assms obtain t' fs' where run: "scan_loop it p 0 [] = Inr (t', fs')"
    and tr: "tr = Folder p name t' fs'"
    by (auto split: sum.splits prod.splits)
  from scan_loop_contributions [OF run] tr show ?thesis
    by simp
qed

lemma get_file_tree_total:
  assumes "list_all (\<lambda>y. entry_error p y = None) it"
  shows "\<exists>tr. get_file_tree name (Inr it) p = Inr tr"
proof -
  from scan_loop_total [OF assms, of 0 "[]"] obtain r where "scan_loop it p 0 [] = Inr r"
    by blast
  then show ?thesis
    by (cases r) simp
qed

section \<open>The claims about the builder\<close>

text \<open>
  Claim C2. In every tree the builder returns, the size of each folder is the sum of the
  sizes of its children, at every level of the tree.
\<close>

theorem get_file_tree_aggregated:
  "get_file_tree name root p = Inr tr \<Longrightarrow> aggregated tr"
  by (rule builder_invariant(1) [where P = "\<lambda>q. aggregated"]) simp_all

theorem get_file_tree_aggregated_witness:
  "get_file_tree ''r''
     (Inr [DirEntry ''a'' (Inr True) (Inr 100) (Inr False) (Inl NotADirectoryError),
           DirEntry ''sub'' (Inr False) (Inr 4096) (Inr True)
             (Inr [DirEntry ''b'' (Inr True) (Inr 50) (Inr False) (Inl NotADirectoryError)])])
     (None :: nat option)
   = Inr (Folder None ''r'' 150 [File None ''a'' 100, Folder None ''sub'' 50 [File None ''b'' 50]])
   \<and> aggregated (Folder (None :: nat option) ''r'' 150
         [File None ''a'' 100, Folder None ''sub'' 50 [File None ''b'' 50]])"
proof -
  have run: "get_file_tree ''r''
     (Inr [DirEntry ''a'' (Inr True) (Inr 100) (Inr False) (Inl NotADirectoryError),
           DirEntry ''sub'' (Inr False) (Inr 4096) (Inr True)
             (Inr [DirEntry ''b'' (Inr True) (Inr 50) (Inr False) (Inl NotADirectoryError)])])
     (None :: nat option)
   = Inr (Folder None ''r'' 150 [File None ''a'' 100, Folder None ''sub'' 50 [File None ''b'' 50]])"
    by simp
  from get_file_tree_aggregated [OF run] run show ?thesis
    by (rule_tac conjI)
qed

text \<open>
  Claim C1. The claim: in every tree the builder returns, the parent field of each
  node but the root refers to the folder whose children list holds the node. The code
  does otherwise: \<open>get_file_tree\<close> gives every \<open>File\<close> it creates, every recursive call
  and the \<open>Folder\<close> it returns the very \<open>parent\<close> argument it received, and the \<open>Folder\<close>
  is only constructed after the loop has ended. So each node of the tree, at any depth,
  carries the parent handed to the outermost call, which \<open>AppFrame.__init__\<close> sets to
  \<open>None\<close>; no node refers to the folder that lists it.
\<close>

theorem get_file_tree_parent_passed_through:
  "get_file_tree name root p = Inr tr \<Longrightarrow> list_all (\<lambda>n. parent n = p) (nodes tr)"
  by (rule builder_invariant(1) [where P = "\<lambda>q tr. list_all (\<lambda>n. parent n = q) (nodes tr)"])
     (simp_all add: list_all_concat list.pred_map comp_def)

theorem get_file_tree_parent_passed_through_witness:
  "get_file_tree ''r''
     (Inr [DirEntry ''a'' (Inr True) (Inr 100) (Inr False) (Inl NotADirectoryError),
           DirEntry ''sub'' (Inr False) (Inr 4096) (Inr True)
             (Inr [DirEntry ''b'' (Inr True) (Inr 50) (Inr False) (Inl NotADirectoryError)])])
     (None :: nat option)
   = Inr (Folder None ''r'' 150 [File None ''a'' 100, Folder None ''sub'' 50 [File None ''b'' 50]])
   \<and> list_all (\<lambda>n. parent n = (None :: nat option))
         (nodes (Folder None ''r'' 150
            [File None ''a'' 100, Folder None ''sub'' 50 [File None ''b'' 50]]))"
proof -
  have run: "get_file_tree ''r''
     (Inr [DirEntry ''a'' (Inr True) (Inr 100) (Inr False) (Inl NotADirectoryError),
           DirEntry ''sub'' (Inr False) (Inr 4096) (Inr True)
             (Inr [DirEntry ''b'' (Inr True) (Inr 50) (Inr False) (Inl NotADirectoryError)])])
     (None :: nat option)
   = Inr (Folder None ''r'' 150 [File None ''a'' 100, Folder None ''sub'' 50 [File None ''b'' 50]])"
    by simp
  from run get_file_tree_parent_passed_through [OF run] show ?thesis
    by (rule conjI)
qed




text \<open>
  Claim C4. When \<open>is_file\<close>, \<open>stat\<close> or \<open>is_dir\<close> of one entry fails with a
  \<open>PermissionError\<close>, only that entry is skipped and the loop goes on with its siblings.
  The tree returned is the tree built from the same listing without the entry, and the
  permission error does not leave the builder. A tree is returned whenever no sibling
  raises an error of another class. In the tree returned, the children are exactly what
  the siblings contribute, in enumeration order, so nothing stands for the failing
  entry; the size is the sum of the sizes of those children, so the failing entry adds
  nothing; every sibling that is a regular file with a readable size is among the
  children with that size, a file of size 0 included, and so is the folder built for
  every sibling directory.
\<close>

theorem permission_failure_skips_entry:
  assumes "isf = Inl PermissionError
      \<or> (isf = Inr True \<and> st = Inl PermissionError)
      \<or> (isf = Inr False \<and> isd = Inl PermissionError)"
  shows "get_file_tree name (Inr (pre @ DirEntry ename isf st isd sub # post)) p
           = get_file_tree name (Inr (pre @ post)) p
       \<and> get_file_tree name (Inr (pre @ DirEntry ename isf st isd sub # post)) p
           \<noteq> Inl PermissionError
       \<and> (list_all (\<lambda>y. entry_error p y = None) (pre @ post) \<longrightarrow>
            (\<exists>tr. get_file_tree name (Inr (pre @ DirEntry ename isf st isd sub # post)) p = Inr tr))
       \<and> (\<forall>tr. get_file_tree name (Inr (pre @ DirEntry ename isf st isd sub # post)) p = Inr tr \<longrightarrow>
            children tr = concat (map (contribution p) (pre @ post))
            \<and> size' tr = sum_list (map size' (concat (map (contribution p) (pre @ post))))
            \<and> (\<forall>y \<in> set (pre @ post). \<forall>sz.
                  entry_is_file y = Inr True \<and> entry_stat y = Inr sz \<longrightarrow>
                  File p (entry_name y) sz \<in> set (children tr))
            \<and> (\<forall>y \<in> set (pre @ post). \<forall>f.
                  entry_is_file y = Inr False \<and> entry_is_dir y = Inr True
                  \<and> get_file_tree (entry_name y) (entry_scandir y) p = Inr f \<longrightarrow>
                  f \<in> set (children tr)))"
proof (intro conjI allI impI)
  from assms have skip: "\<And>t fs. scan_loop (DirEntry ename isf st isd sub # post) p t fs
      = scan_loop post p t fs"
    by auto
  then show same: "get_file_tree name (Inr (pre @ DirEntry ename isf st isd sub # post)) p
           = get_file_tree name (Inr (pre @ post)) p"
    by (rule get_file_tree_skip_middle)
  show "get_file_tree name (Inr (pre @ DirEntry ename isf st isd sub # post)) p
           \<noteq> Inl PermissionError"
    by (rule get_file_tree_never_permission)
  {
    assume "list_all (\<lambda>y. entry_error p y = None) (pre @ post)"
    from get_file_tree_total [OF this, of name] same
    show "\<exists>tr. get_file_tree name (Inr (pre @ DirEntry ename isf st isd sub # post)) p = Inr tr"
      by simp
  }
  fix tr
  assume "get_file_tree name (Inr (pre @ DirEntry ename isf st isd sub # post)) p = Inr tr"
  with same have "get_file_tree name (Inr (pre @ post)) p = Inr tr"
    by simp
  from get_file_tree_contributions [OF this]
  have tr: "tr = Folder p name (sum_list (map size' (concat (map (contribution p) (pre @ post)))))
           (concat (map (contribution p) (pre @ post)))" .
  from tr show kids: "children tr = concat (map (contribution p) (pre @ post))"
    by simp
  from tr show "size' tr = sum_list (map size' (concat (map (contribution p) (pre @ post))))"
    by simp
  show "\<forall>y \<in> set (pre @ post). \<forall>sz.
          entry_is_file y = Inr True \<and> entry_stat y = Inr sz \<longrightarrow>
          File p (entry_name y) sz \<in> set (children tr)"
  proof (intro ballI allI impI)
    fix y sz
    assume y: "y \<in> set (pre @ post)"
      and "entry_is_file y = Inr True \<and> entry_stat y = Inr sz"
    then have "contribution p y = [File p (entry_name y) sz]"
      by (simp add: contribution_file)
    with y have "File p (entry_name y) sz \<in> set (concat (map (contribution p) (pre @ post)))"
      unfolding set_concat by force
    with kids show "File p (entry_name y) sz \<in> set (children tr)"
      by simp
  qed
  show "\<forall>y \<in> set (pre @ post). \<forall>f.
          entry_is_file y = Inr False \<and> entry_is_dir y = Inr True
          \<and> get_file_tree (entry_name y) (entry_scandir y) p = Inr f \<longrightarrow>
          f \<in> set (children tr)"
  proof (intro ballI allI impI)
    fix y f
    assume y: "y \<in> set (pre @ post)"
      and "entry_is_file y = Inr False \<and> entry_is_dir y = Inr True
          \<and> get_file_tree (entry_name y) (entry_scandir y) p = Inr f"
    then have "contribution p y = [f]"
      by (simp add: contribution_folder)
    with y have "f \<in> set (concat (map (contribution p) (pre @ post)))"
      unfolding set_concat by force
    with kids show "f \<in> set (children tr)"
      by simp
  qed
qed

theorem permission_failure_skips_entry_witness:
  "get_file_tree ''r''
      (Inr ([DirEntry ''a'' (Inr True) (Inr 100) (Inr False) (Inl NotADirectoryError),
             DirEntry ''empty'' (Inr True) (Inr 0) (Inr False) (Inl NotADirectoryError)]
          @ DirEntry ''secret'' (Inr True) (Inl PermissionError) (Inr False) (Inl NotADirectoryError)
          # [DirEntry ''sub'' (Inr False) (Inr 4096) (Inr True)
               (Inr [DirEntry ''b'' (Inr True) (Inr 50) (Inr False) (Inl NotADirectoryError)])]))
      (None :: nat option)
    = Inr (Folder None ''r'' 150
        [File None ''a'' 100, File None ''empty'' 0, Folder None ''sub'' 50 [File None ''b'' 50]])"
proof -
  have fails: "(Inr True :: os_error + bool) = Inl PermissionError
      \<or> ((Inr True :: os_error + bool) = Inr True
           \<and> (Inl PermissionError :: os_error + int) = Inl PermissionError)
      \<or> ((Inr True :: os_error + bool) = Inr False
           \<and> (Inr False :: os_error + bool) = Inl PermissionError)"
    by simp
  have "get_file_tree ''r''
      (Inr ([DirEntry ''a'' (Inr True) (Inr 100) (Inr False) (Inl NotADirectoryError),
             DirEntry ''empty'' (Inr True) (Inr 0) (Inr False) (Inl NotADirectoryError)]
          @ DirEntry ''secret'' (Inr True) (Inl PermissionError) (Inr False) (Inl NotADirectoryError)
          # [DirEntry ''sub'' (Inr False) (Inr 4096) (Inr True)
               (Inr [DirEntry ''b'' (Inr True) (Inr 50) (Inr False) (Inl NotADirectoryError)])]))
      (None :: nat option)
    = get_file_tree ''r''
      (Inr ([DirEntry ''a'' (Inr True) (Inr 100) (Inr False) (Inl NotADirectoryError),
             DirEntry ''empty'' (Inr True) (Inr 0) (Inr False) (Inl NotADirectoryError)]
          @ [DirEntry ''sub'' (Inr False) (Inr 4096) (Inr True)
               (Inr [DirEntry ''b'' (Inr True) (Inr 50) (Inr False) (Inl NotADirectoryError)])]))
      None"
    by (rule permission_failure_skips_entry [OF fails, THEN conjunct1])
  also have "\<dots> = Inr (Folder None ''r'' 150
        [File None ''a'' 100, File None ''empty'' 0, Folder None ''sub'' 50 [File None ''b'' 50]])"
    by simp
  finally show ?thesis .
qed

text \<open>
  Claim C7. Only permission errors are recovered from. When the entries before some entry
  are processed without an error leaving the loop, and \<open>is_file\<close>, \<open>stat\<close>, \<open>is_dir\<close> or the
  recursive call for that entry raises an error \<open>e\<close> other than \<open>PermissionError\<close> (the
  recursive call raises what its own traversal lets through, at any depth), the builder
  returns no tree: \<open>e\<close> reaches its caller. An error of \<open>os.scandir\<close> on the root does so
  too, and a \<open>PermissionError\<close> never leaves the loop over a listing.
\<close>

theorem other_errors_propagate:
  assumes "e \<noteq> PermissionError"
    and "scan_loop pre p 0 [] = Inr (t, fs)"
    and "isf = Inl e
      \<or> (isf = Inr True \<and> st = Inl e)
      \<or> (isf = Inr False \<and> isd = Inl e)
      \<or> (isf = Inr False \<and> isd = Inr True \<and> get_file_tree ename sub p = Inl e)"
  shows "get_file_tree name (Inr (pre @ DirEntry ename isf st isd sub # post)) p = Inl e
       \<and> get_file_tree name (Inl e) p = Inl e
       \<and> get_file_tree name (Inr it) p \<noteq> Inl PermissionError"
proof (intro conjI)
  from assms(1,3) have "scan_loop (DirEntry ename isf st isd sub # post) p t fs = Inl e"
    by auto
  with assms(2) show "get_file_tree name (Inr (pre @ DirEntry ename isf st isd sub # post)) p = Inl e"
    by (simp add: scan_loop_append [of pre])
  show "get_file_tree name (Inl e) p = Inl e"
    by simp
  show "get_file_tree name (Inr it) p \<noteq> Inl PermissionError"
    by (rule get_file_tree_never_permission)
qed

theorem other_errors_propagate_witness:
  "FileNotFoundError \<noteq> PermissionError
   \<and> scan_loop [DirEntry ''a'' (Inr True) (Inr 100) (Inr False) (Inl NotADirectoryError)]
         (None :: nat option) 0 []
       = Inr (100, [File None ''a'' 100])
   \<and> get_file_tree ''sub''
         (Inr [DirEntry ''gone'' (Inr True) (Inl FileNotFoundError) (Inr False) (Inl FileNotFoundError)])
         (None :: nat option)
       = Inl FileNotFoundError
   \<and> get_file_tree ''r''
        (Inr ([DirEntry ''a'' (Inr True) (Inr 100) (Inr False) (Inl NotADirectoryError)]
          @ DirEntry ''sub'' (Inr False) (Inr 4096) (Inr True)
              (Inr [DirEntry ''gone'' (Inr True) (Inl FileNotFoundError) (Inr False)
                      (Inl FileNotFoundError)])
          # [DirEntry ''b'' (Inr True) (Inr 50) (Inr False) (Inl NotADirectoryError)]))
        (None :: nat option)
       = Inl FileNotFoundError"
proof -
  have ne: "FileNotFoundError \<noteq> PermissionError"
    by simp
  have pre: "scan_loop [DirEntry ''a'' (Inr True) (Inr 100) (Inr False) (Inl NotADirectoryError)]
         (None :: nat option) 0 [] = Inr (100, [File None ''a'' 100])"
    by simp
  have sub: "get_file_tree ''sub''
         (Inr [DirEntry ''gone'' (Inr True) (Inl FileNotFoundError) (Inr False) (Inl FileNotFoundError)])
         (None :: nat option) = Inl FileNotFoundError"
    by simp
  have "(Inr False :: os_error + bool) = Inl FileNotFoundError
      \<or> ((Inr False :: os_error + bool) = Inr True \<and> (Inr 4096 :: os_error + int) = Inl FileNotFoundError)
      \<or> ((Inr False :: os_error + bool) = Inr False \<and> (Inr True :: os_error + bool) = Inl FileNotFoundError)
      \<or> ((Inr False :: os_error + bool) = Inr False \<and> (Inr True :: os_error + bool) = Inr True
          \<and> get_file_tree ''sub''
         (Inr [DirEntry ''gone'' (Inr True) (Inl FileNotFoundError) (Inr False) (Inl FileNotFoundError)])
         (None :: nat option) = Inl FileNotFoundError)"
    using sub by simp
  from other_errors_propagate [OF ne pre this, of "''r''"
      "[DirEntry ''b'' (Inr True) (Inr 50) (Inr False) (Inl NotADirectoryError)]"]
  have "get_file_tree ''r''
        (Inr ([DirEntry ''a'' (Inr True) (Inr 100) (Inr False) (Inl NotADirectoryError)]
          @ DirEntry ''sub'' (Inr False) (Inr 4096) (Inr True)
              (Inr [DirEntry ''gone'' (Inr True) (Inl FileNotFoundError) (Inr False)
                      (Inl FileNotFoundError)])
          # [DirEntry ''b'' (Inr True) (Inr 50) (Inr False) (Inl NotADirectoryError)]))
        (None :: nat option)
       = Inl FileNotFoundError"
    by (rule conjunct1)
  with ne pre sub show ?thesis
    by (intro conjI)
qed

text \<open>
  Claim C9, as amended. The claim has a root that does not exist or cannot be enumerated
  yield an empty root folder of size 0. In the code \<open>os.scandir(root)\<close> stands outside
  the \<open>try\<close> block and \<open>AppFrame.__init__\<close> has no handler: the error raised by
  \<open>os.scandir\<close>, whatever its class, leaves \<open>get_file_tree\<close> and the construction of the
  frame, and no tree is built.
\<close>

theorem missing_root_propagates:
  "get_file_tree name (Inl e) p = Inl e
   \<and> (AppFrame_init root_path (Inl e) :: os_error + 'p node list) = Inl e"
  by (simp add: AppFrame_init_def)

theorem missing_root_counterexample:
  "get_file_tree ''missing'' (Inl FileNotFoundError) (None :: nat option) = Inl FileNotFoundError
   \<and> get_file_tree ''missing'' (Inl FileNotFoundError) (None :: nat option)
        \<noteq> Inr (Folder None ''missing'' 0 [])
   \<and> get_file_tree ''locked'' (Inl PermissionError) (None :: nat option)
        \<noteq> Inr (Folder None ''locked'' 0 [])"
  by simp

theorem missing_root_propagates_witness:
  "get_file_tree ''locked'' (Inl PermissionError) (None :: nat option) = Inl PermissionError
   \<and> (AppFrame_init ''missing'' (Inl FileNotFoundError) :: os_error + nat node list)
        = Inl FileNotFoundError"
  using missing_root_propagates [of "''locked''" PermissionError "None :: nat option"]
    missing_root_propagates [of "''missing''" FileNotFoundError "None :: nat option" "''missing''"]
  by simp

section \<open>The claims about the view model\<close>

text \<open>
  Claim C6. \<open>Compare\<close> is a two-level comparator. When the column is 0 or the two sizes
  are equal, it orders by name: ascending, the result is \<open>1\<close> when the first name is the
  greater and \<open>-1\<close> otherwise. When the column is not 0 and the sizes differ, it orders by
  size in the same way. Descending, the sign is the opposite in every case. So for two
  nodes of equal size named \<open>a\<close> and \<open>b\<close>, compared on column 1 ascending, \<open>a\<close> comes
  before \<open>b\<close> whichever is the first argument.
\<close>

theorem Compare_two_level:
  "(column = 0 \<or> size' f1 = size' f2 \<longrightarrow>
      Compare f1 f2 column True = (if path f2 < path f1 then 1 else - 1))
   \<and> (column \<noteq> 0 \<and> size' f1 \<noteq> size' f2 \<longrightarrow>
      Compare f1 f2 column True = (if size' f2 < size' f1 then 1 else - 1))
   \<and> Compare f1 f2 column False = - Compare f1 f2 column True
   \<and> (size' f1 = size' f2 \<and> path f1 = ''a'' \<and> path f2 = ''b'' \<longrightarrow>
      Compare f1 f2 1 True = - 1 \<and> Compare f2 f1 1 True = 1)"
  by (auto simp: Compare_def)

theorem Compare_two_level_witness:
  "Compare (File (None :: nat option) ''a'' 7) (File None ''b'' 7) 1 True = - 1
   \<and> Compare (File (None :: nat option) ''b'' 7) (File None ''a'' 7) 1 True = 1
   \<and> Compare (File (None :: nat option) ''a'' 7) (File None ''b'' 7) 1 False = 1
   \<and> Compare (File (None :: nat option) ''zz'' 5) (File None ''b'' 10) 1 True = - 1
   \<and> Compare (File (None :: nat option) ''zz'' 5) (File None ''b'' 10) 0 True = 1"
  using Compare_two_level [of 1 "File (None :: nat option) ''a'' 7" "File None ''b'' 7"]
    Compare_two_level [of 1 "File (None :: nat option) ''zz'' 5" "File None ''b'' 10"]
    Compare_two_level [of 0 "File (None :: nat option) ''zz'' 5" "File None ''b'' 10"]
  by simp

text \<open>
  Claim C10. \<open>Compare\<close> never returns 0: the result is \<open>1\<close> or \<open>-1\<close> for every pair of
  nodes, and for two nodes with the same name and the same size, a node compared with
  itself among them, the flag alone decides: \<open>-1\<close> ascending, \<open>1\<close> descending.
\<close>

theorem Compare_never_zero:
  "(Compare f1 f2 column ascending = 1 \<or> Compare f1 f2 column ascending = - 1)
   \<and> Compare f1 f2 column ascending \<noteq> 0
   \<and> (path f1 = path f2 \<and> size' f1 = size' f2 \<longrightarrow>
        Compare f1 f2 column ascending = (if ascending then - 1 else 1))
   \<and> Compare f1 f1 column ascending = (if ascending then - 1 else 1)"
  by (auto simp: Compare_def)

theorem Compare_never_zero_witness:
  "Compare (File (None :: nat option) ''a'' 7) (File None ''a'' 7) 1 True = - 1
   \<and> Compare (File (None :: nat option) ''a'' 7) (File None ''a'' 7) 1 False = 1
   \<and> Compare (File (None :: nat option) ''a'' 7) (File None ''a'' 7) 0 True \<noteq> 0"
  using Compare_never_zero [of "File (None :: nat option) ''a'' 7" "File None ''a'' 7" 1 True]
    Compare_never_zero [of "File (None :: nat option) ''a'' 7" "File None ''a'' 7" 1 False]
    Compare_never_zero [of "File (None :: nat option) ''a'' 7" "File None ''a'' 7" 0 True]
  by simp

text \<open>
  Claim C8, as amended. The claim has \<open>GetChildren\<close> return the empty sequence for a
  \<open>File\<close>. The code reads \<open>.children\<close> of whatever node the item stands for, and a
  \<open>File\<close> has no such attribute: the call raises \<open>AttributeError\<close>. \<open>IsContainer\<close> is
  false for a \<open>File\<close>. For a \<open>Folder\<close> the stored children are appended and counted,
  for the null item the roots.
\<close>

theorem GetChildren_of_nodes:
  "GetChildren data (Some (File p n s)) children' = Inl AttributeError
   \<and> IsContainer (Some (File p n s)) = False
   \<and> GetChildren data (Some (Folder p n s cs)) children' = Inr (children' @ cs, int (length cs))
   \<and> GetChildren data None children' = Inr (children' @ data, int (length data))"
  by (simp add: GetChildren_def IsContainer_def)

theorem GetChildren_file_counterexample:
  "GetChildren [Folder (None :: nat option) ''r'' 100 [File None ''a'' 100]]
      (Some (File None ''a'' 100)) [] = Inl AttributeError
   \<and> GetChildren [Folder (None :: nat option) ''r'' 100 [File None ''a'' 100]]
      (Some (File None ''a'' 100)) [] \<noteq> Inr ([], 0)"
  by (simp add: GetChildren_def)

theorem GetChildren_of_nodes_witness:
  "GetChildren [Folder (None :: nat option) ''r'' 100 [File None ''a'' 100]]
      (Some (Folder None ''r'' 100 [File None ''a'' 100])) [] = Inr ([File None ''a'' 100], 1)
   \<and> IsContainer (Some (File (None :: nat option) ''a'' 100)) = False"
  using GetChildren_of_nodes [of "[Folder (None :: nat option) ''r'' 100 [File None ''a'' 100]]"
      None "''r''" 100 "[]" "[File None ''a'' 100]"]
    GetChildren_of_nodes [of "[]" "None :: nat option" "''a''" 100 "[]" "[]"]
  by simp

section \<open>The claim about the size formatter\<close>

lemma pretty_print_size_999: "pretty_print_size (Some 999) = Inr (Some ''999 bytes'')"
  by code_simp

lemma pretty_print_size_1000: "pretty_print_size (Some 1000) = Inr (Some ''1.00 kB'')"
  by code_simp

lemma pretty_print_size_999999: "pretty_print_size (Some 999999) = Inr (Some ''1000.00 kB'')"
  by code_simp

lemma pretty_print_size_million: "pretty_print_size (Some 1000000) = Inr (Some ''1.00 MB'')"
  by code_simp

lemma pretty_print_size_billion: "pretty_print_size (Some 1000000000) = Inr (Some ''1.00 GB'')"
  by code_simp

text \<open>
  Claim C5, as amended. The boundary values of the claim hold but one: 999 is printed as
  \<open>999 bytes\<close>, 1000 as \<open>1.00 kB\<close>, and \<open>1000 ^ k\<close> as \<open>1.00\<close> with the unit kB, MB and GB
  for \<open>k\<close> = 1, 2 and 3. For 999999 the claim has \<open>999.99 kB\<close>; the code divides once,
  finds 999.999 below 1000 and prints it with two decimals, rounded to the nearest:
  \<open>1000.00 kB\<close>.
\<close>

theorem pretty_print_size_boundaries:
  "pretty_print_size (Some 999) = Inr (Some ''999 bytes'')
   \<and> pretty_print_size (Some 1000) = Inr (Some ''1.00 kB'')
   \<and> pretty_print_size (Some 999999) = Inr (Some ''1000.00 kB'')
   \<and> pretty_print_size (Some (1000 ^ 1)) = Inr (Some ''1.00 kB'')
   \<and> pretty_print_size (Some (1000 ^ 2)) = Inr (Some ''1.00 MB'')
   \<and> pretty_print_size (Some (1000 ^ 3)) = Inr (Some ''1.00 GB'')"
  by (simp add: pretty_print_size_999 pretty_print_size_1000 pretty_print_size_999999
      pretty_print_size_million pretty_print_size_billion)

theorem pretty_print_size_999999_counterexample:
  "pretty_print_size (Some 999999) = Inr (Some ''1000.00 kB'')
   \<and> pretty_print_size (Some 999999) \<noteq> Inr (Some ''999.99 kB'')"
  by (simp add: pretty_print_size_999999)

theorem pretty_print_size_boundaries_witness:
  "pretty_print_size (Some 999999) \<noteq> pretty_print_size (Some 1000)
   \<and> pretty_print_size (Some 1000000) \<noteq> pretty_print_size (Some 1000)"
  using pretty_print_size_boundaries
  by simp

end
